theory Spec2Isabelle
  imports Complex_Main
begin

section \<open>The slot board component (src/components/SlotBoard.svelte)\<close>

text \<open>
  The component keeps a handful of script-level variables, builds one PIXI container for the
  board and hands tweens to GSAP. The embedding below follows the script block of the
  component function by function. JavaScript numbers are taken as real numbers
  (\<open>Math.PI\<close> is \<open>pi\<close>), so IEEE rounding is idealised; \<open>undefined\<close> and \<open>null\<close> are
  \<open>None\<close>; a thrown exception is the \<open>Inl\<close> side of a sum, paired with the state the
  throwing code leaves behind.
\<close>

subsection \<open>BOARD_CONFIG, ANIMATION_CONFIG and the derived constants\<close>

definition GRID_SIZE :: nat where "GRID_SIZE = 5"
definition SYMBOL_SIZE :: real where "SYMBOL_SIZE = 60"
definition SYMBOL_SPACING :: real where "SYMBOL_SPACING = 10"
definition FRAME_PADDING :: real where "FRAME_PADDING = 20"
definition CANVAS_PADDING :: real where "CANVAS_PADDING = 100"

definition UPWARD_MOVEMENT :: real where "UPWARD_MOVEMENT = - 80"
definition ROTATION_OVERSHOOT :: real where "ROTATION_OVERSHOOT = 95"
definition ROTATION_BOUNCE_BACK :: real where "ROTATION_BOUNCE_BACK = 87"
definition FINAL_ROTATION :: real where "FINAL_ROTATION = 90"
definition ZOOM_OUT_SCALE :: real where "ZOOM_OUT_SCALE = 90 / 100"
definition ZOOM_IN_SCALE :: real where "ZOOM_IN_SCALE = 1"

definition DURATION_UPWARD :: real where "DURATION_UPWARD = 4 / 10"
definition DURATION_ROTATION_BOUNCE :: real where "DURATION_ROTATION_BOUNCE = 15 / 100"
definition DURATION_ROTATION_SETTLE :: real where "DURATION_ROTATION_SETTLE = 2 / 10"
definition DURATION_FALL_DOWN :: real where "DURATION_FALL_DOWN = 5 / 10"
definition DURATION_RESET :: real where "DURATION_RESET = 5 / 10"

definition EASING_UPWARD :: string where "EASING_UPWARD = ''power2.out''"
definition EASING_ROTATION_BOUNCE :: string where "EASING_ROTATION_BOUNCE = ''power1.inOut''"
definition EASING_ROTATION_SETTLE :: string where "EASING_ROTATION_SETTLE = ''elastic.out(1, 0.5)''"
definition EASING_FALL_DOWN :: string where "EASING_FALL_DOWN = ''bounce.out''"
definition EASING_RESET :: string where "EASING_RESET = ''power2.inOut''"

text \<open>\<open>'ABCDEFGHIJKLMNOPQRSTUVWXYZ'.split('')\<close>: one single-character string per letter.\<close>

definition SYMBOLS :: "string list" where
  "SYMBOLS = map (\<lambda>ch. [ch]) ''ABCDEFGHIJKLMNOPQRSTUVWXYZ''"

definition BOARD_WIDTH :: real where
  "BOARD_WIDTH = real GRID_SIZE * SYMBOL_SIZE + (real GRID_SIZE - 1) * SYMBOL_SPACING
                 + FRAME_PADDING * 2"
definition BOARD_HEIGHT :: real where "BOARD_HEIGHT = BOARD_WIDTH"
definition CANVAS_WIDTH :: real where "CANVAS_WIDTH = BOARD_WIDTH + CANVAS_PADDING"
definition CANVAS_HEIGHT :: real where "CANVAS_HEIGHT = BOARD_HEIGHT + CANVAS_PADDING"

subsection \<open>The scene object, GSAP animations and the component state\<close>

text \<open>
  Of a \<open>PIXI.Container\<close> the fields the script reads or writes: position, rotation (in
  radians), scale and pivot. Its children (frame and symbol cells) are never touched after
  mounting and are left out.
\<close>

record container =
  c_x :: real
  c_y :: real
  c_rotation :: real
  c_scale_x :: real
  c_scale_y :: real
  c_pivot_x :: real
  c_pivot_y :: real

text \<open>\<open>new PIXI.Container()\<close>: everything zero, scale one.\<close>

definition new_Container :: container where
  "new_Container = \<lparr>c_x = 0, c_y = 0, c_rotation = 0, c_scale_x = 1, c_scale_y = 1,
                     c_pivot_x = 0, c_pivot_y = 0\<rparr>"

datatype error = Error string

text \<open>
  A tween as the script describes it to GSAP: the object it animates (\<open>boardContainer\<close> or
  \<open>boardContainer.scale\<close>), the end value of each animated property, duration, ease and
  the position parameter of \<open>timeline.to\<close> (\<open>'<'\<close>, \<open>'-=0.05'\<close> or none).
\<close>

datatype tween_target = BoardContainer | BoardContainerScale
datatype property = PropX | PropY | PropRotation

record tween =
  tw_target :: tween_target
  tw_vars :: "(property \<times> real) list"
  tw_duration :: real
  tw_ease :: string
  tw_position :: "string option"

text \<open>
  The two \<open>onComplete\<close> closures of the script, with the variables they capture:
  the one of \<open>createRotationAnimation\<close> captures \<open>startRotation\<close> and \<open>startY\<close>, the one of
  \<open>resetRotation\<close> captures nothing.
\<close>

datatype on_complete = LockFinalValues real real | ClearCurrentRotation

text \<open>\<open>gsap.timeline({onComplete})\<close> with its \<open>.to\<close> calls, and a single \<open>gsap.to\<close>.\<close>

datatype animation = Timeline on_complete "tween list" | Tween tween on_complete

fun anim_tweens :: "animation \<Rightarrow> tween list" where
  "anim_tweens (Timeline h tws) = tws"
| "anim_tweens (Tween tw h) = [tw]"

fun anim_onComplete :: "animation \<Rightarrow> on_complete" where
  "anim_onComplete (Timeline h tws) = h"
| "anim_onComplete (Tween tw h) = h"

text \<open>
  The script's variables. \<open>canvasContainer\<close> and \<open>pixiApp\<close> only matter as present or
  absent. \<open>console\<close> collects the calls of \<open>console.error\<close>; \<open>gsap\<close> holds the animations
  handed to GSAP that have not completed yet, oldest first.
\<close>

record state =
  activated :: bool
  rotation :: "real option"
  canvasContainer :: bool
  boardContainer :: "container option"
  pixiApp :: bool
  currentRotation :: real
  originalBoardY :: real
  symbolGrid :: "string option list"
  console :: "(string \<times> error) list"
  gsap :: "animation list"

subsection \<open>generateSymbolGrid\<close>

text \<open>
  \<open>xs[k]\<close> in JavaScript: \<open>undefined\<close> outside the array.
\<close>

definition js_index :: "'a list \<Rightarrow> int \<Rightarrow> 'a option" where
  "js_index xs k = (if 0 \<le> k \<and> k < int (length xs) then Some (xs ! nat k) else None)"

text \<open>
  The script's loop \<open>for (let i = 0; i < totalCells; i++)\<close>. \<open>random i\<close> is the value the
  \<open>i\<close>-th call of \<open>Math.random()\<close> returns.
\<close>

function generateSymbolGrid_loop ::
  "(nat \<Rightarrow> real) \<Rightarrow> nat \<Rightarrow> string option list \<Rightarrow> string option list" where
  "generateSymbolGrid_loop random i grid =
     (if i < GRID_SIZE * GRID_SIZE
      then generateSymbolGrid_loop random (i + 1)
             (grid @ [js_index SYMBOLS \<lfloor>random i * real (length SYMBOLS)\<rfloor>])
      else grid)"
  by pat_completeness auto
termination
  by (relation "measure (\<lambda>(random, i, grid). GRID_SIZE * GRID_SIZE - i)") auto

definition generateSymbolGrid :: "(nat \<Rightarrow> real) \<Rightarrow> string option list" where
  "generateSymbolGrid random = generateSymbolGrid_loop random 0 []"

subsection \<open>Mounting\<close>

text \<open>\<open>initializeBoardContainer\<close> returns the container and records \<open>originalBoardY\<close>.\<close>

definition initializeBoardContainer :: "state \<Rightarrow> container \<times> state" where
  "initializeBoardContainer s =
     (new_Container\<lparr>c_pivot_x := BOARD_WIDTH / 2, c_pivot_y := BOARD_HEIGHT / 2,
                    c_x := CANVAS_WIDTH / 2, c_y := CANVAS_HEIGHT / 2\<rparr>,
      s\<lparr>originalBoardY := CANVAS_HEIGHT / 2\<rparr>)"

text \<open>
  \<open>onMount\<close>: \<open>init_error\<close> is the exception \<open>pixiApp.init\<close> throws, if any; it is caught
  and logged, and the board container stays absent.
\<close>

definition onMount :: "error option \<Rightarrow> (nat \<Rightarrow> real) \<Rightarrow> state \<Rightarrow> state" where
  "onMount init_error random s =
     (if \<not> canvasContainer s then s
      else case init_error of
             Some e \<Rightarrow> s\<lparr>pixiApp := True,
                         console := console s @ [(''Failed to initialize board:'', e)]\<rparr>
           | None \<Rightarrow>
               (let (c, s1) = initializeBoardContainer (s\<lparr>pixiApp := True\<rparr>);
                    s2 = s1\<lparr>symbolGrid := generateSymbolGrid random\<rparr>;
                    s3 = s2\<lparr>currentRotation := 0\<rparr>
                in s3\<lparr>boardContainer := Some (c\<lparr>c_rotation := currentRotation s3\<rparr>)\<rparr>))"

text \<open>The component before mounting, with the defaults of its props and variables.\<close>

definition initial_state :: state where
  "initial_state = \<lparr>activated = False, rotation = Some 0, canvasContainer = True,
                     boardContainer = None, pixiApp = False, currentRotation = 0,
                     originalBoardY = 0, symbolGrid = [], console = [], gsap = []\<rparr>"

subsection \<open>createRotationAnimation, rotateBoard, resetRotation and the rotation effect\<close>

definition createRotationAnimation :: "state \<Rightarrow> (error + animation) \<times> state" where
  "createRotationAnimation s =
     (case boardContainer s of
        None \<Rightarrow> (Inl (Error ''Board container not initialized''), s)
      | Some c \<Rightarrow>
          (let startY = c_y c;
               startRotation = currentRotation s;
               targetY = startY + UPWARD_MOVEMENT;
               c1 = (if c_scale_x c = 0 \<or> c_scale_y c = 0
                     then c\<lparr>c_scale_x := 1, c_scale_y := 1\<rparr> else c);
               timeline = Timeline (LockFinalValues startRotation startY)
                 [\<lparr>tw_target = BoardContainerScale,
                   tw_vars = [(PropX, ZOOM_OUT_SCALE), (PropY, ZOOM_OUT_SCALE)],
                   tw_duration = DURATION_UPWARD, tw_ease = EASING_UPWARD,
                   tw_position = None\<rparr>,
                  \<lparr>tw_target = BoardContainer,
                   tw_vars = [(PropY, targetY),
                              (PropRotation, (startRotation + ROTATION_OVERSHOOT) * (pi / 180))],
                   tw_duration = DURATION_UPWARD, tw_ease = EASING_UPWARD,
                   tw_position = Some ''<''\<rparr>,
                  \<lparr>tw_target = BoardContainer,
                   tw_vars = [(PropRotation, (startRotation + ROTATION_BOUNCE_BACK) * (pi / 180))],
                   tw_duration = DURATION_ROTATION_BOUNCE, tw_ease = EASING_ROTATION_BOUNCE,
                   tw_position = Some ''-=0.05''\<rparr>,
                  \<lparr>tw_target = BoardContainer,
                   tw_vars = [(PropRotation, (startRotation + FINAL_ROTATION) * (pi / 180)),
                              (PropY, targetY)],
                   tw_duration = DURATION_ROTATION_SETTLE, tw_ease = EASING_ROTATION_SETTLE,
                   tw_position = None\<rparr>,
                  \<lparr>tw_target = BoardContainerScale,
                   tw_vars = [(PropX, ZOOM_IN_SCALE), (PropY, ZOOM_IN_SCALE)],
                   tw_duration = DURATION_FALL_DOWN, tw_ease = EASING_FALL_DOWN,
                   tw_position = Some ''-=0.05''\<rparr>,
                  \<lparr>tw_target = BoardContainer,
                   tw_vars = [(PropY, startY)],
                   tw_duration = DURATION_FALL_DOWN, tw_ease = EASING_FALL_DOWN,
                   tw_position = Some ''<''\<rparr>]
           in (Inr timeline, s\<lparr>boardContainer := Some c1, gsap := gsap s @ [timeline]\<rparr>)))"

text \<open>
  \<open>rotateBoard\<close> with the call inside its \<open>try\<close> block as a parameter, so that the
  \<open>catch\<close> branch can be exercised by any exception the call may raise; \<open>rotateBoard\<close>
  itself is the instance at \<open>createRotationAnimation\<close>. The result is what the caller
  sees: \<open>Inr ()\<close> for a normal return, \<open>Inl e\<close> for an exception that escapes.
\<close>

definition rotateBoard_calling ::
  "(state \<Rightarrow> (error + animation) \<times> state) \<Rightarrow> state \<Rightarrow> (error + unit) \<times> state" where
  "rotateBoard_calling create s =
     (if boardContainer s = None \<or> \<not> activated s then (Inr (), s)
      else case create s of
             (Inr timeline, s1) \<Rightarrow> (Inr (), s1)
           | (Inl e, s1) \<Rightarrow>
               (Inr (), s1\<lparr>console := console s1 @ [(''Failed to animate board rotation:'', e)]\<rparr>))"

definition rotateBoard :: "state \<Rightarrow> (error + unit) \<times> state" where
  "rotateBoard = rotateBoard_calling createRotationAnimation"

definition resetRotation :: "state \<Rightarrow> state" where
  "resetRotation s =
     (case boardContainer s of
        None \<Rightarrow> s
      | Some c \<Rightarrow>
          s\<lparr>gsap := gsap s @
             [Tween \<lparr>tw_target = BoardContainer, tw_vars = [(PropRotation, 0)],
                     tw_duration = DURATION_RESET, tw_ease = EASING_RESET,
                     tw_position = None\<rparr>
                    ClearCurrentRotation]\<rparr>)"

text \<open>
  The body of the \<open>$effect\<close> that syncs the \<open>rotation\<close> prop.
\<close>

definition rotation_effect :: "state \<Rightarrow> state" where
  "rotation_effect s =
     (case rotation s of
        None \<Rightarrow> s
      | Some r \<Rightarrow>
          (case boardContainer s of
             None \<Rightarrow> s
           | Some c \<Rightarrow> s\<lparr>boardContainer := Some (c\<lparr>c_rotation := r * (pi / 180)\<rparr>),
                         currentRotation := r\<rparr>))"

text \<open>
  The parent assigns the number \<open>r\<close> to the \<open>rotation\<close> prop. The effect reads the prop
  (\<open>boardContainer\<close> is a plain \<open>let\<close>, not reactive state), so Svelte runs its body again
  when, and only when, the assignment changes the prop's value.
\<close>

definition set_rotation :: "real \<Rightarrow> state \<Rightarrow> state" where
  "set_rotation r s =
     (if rotation s = Some r then s else rotation_effect (s\<lparr>rotation := Some r\<rparr>))"

subsection \<open>An animation running to completion\<close>

text \<open>
  What GSAP does when an animation reaches its end: every tween has written the end value
  of each of its properties to its target, the later tween of a timeline last, and then
  the \<open>onComplete\<close> callback runs. The frames in between are not modelled.
\<close>

fun set_property :: "tween_target \<Rightarrow> property \<times> real \<Rightarrow> container \<Rightarrow> container" where
  "set_property BoardContainer (PropX, v) c = c\<lparr>c_x := v\<rparr>"
| "set_property BoardContainer (PropY, v) c = c\<lparr>c_y := v\<rparr>"
| "set_property BoardContainer (PropRotation, v) c = c\<lparr>c_rotation := v\<rparr>"
| "set_property BoardContainerScale (PropX, v) c = c\<lparr>c_scale_x := v\<rparr>"
| "set_property BoardContainerScale (PropY, v) c = c\<lparr>c_scale_y := v\<rparr>"
| "set_property BoardContainerScale (PropRotation, v) c = c"

definition finish_tween :: "container \<Rightarrow> tween \<Rightarrow> container" where
  "finish_tween c tw = foldl (\<lambda>c' pv. set_property (tw_target tw) pv c') c (tw_vars tw)"

fun run_onComplete :: "on_complete \<Rightarrow> state \<Rightarrow> state" where
  "run_onComplete (LockFinalValues startRotation startY) s =
     (case boardContainer s of
        None \<Rightarrow> s
      | Some c \<Rightarrow>
          s\<lparr>boardContainer :=
               Some (c\<lparr>c_rotation := (startRotation + FINAL_ROTATION) * (pi / 180),
                       c_y := startY,
                       c_scale_x := ZOOM_IN_SCALE, c_scale_y := ZOOM_IN_SCALE\<rparr>),
            currentRotation := startRotation + FINAL_ROTATION\<rparr>)"
| "run_onComplete ClearCurrentRotation s = s\<lparr>currentRotation := 0\<rparr>"

text \<open>The \<open>i\<close>-th pending animation runs to completion and leaves GSAP's list.\<close>

definition complete :: "nat \<Rightarrow> state \<Rightarrow> state" where
  "complete i s =
     (if i < length (gsap s)
      then (let a = gsap s ! i;
                s1 = s\<lparr>boardContainer :=
                         map_option (\<lambda>c. foldl finish_tween c (anim_tweens a)) (boardContainer s),
                       gsap := take i (gsap s) @ drop (Suc i) (gsap s)\<rparr>
            in run_onComplete (anim_onComplete a) s1)
      else s)"

text \<open>
  The \<open>i\<close>-th pending animation at the instant its first \<open>k\<close> tweens have reached their
  end and the later ones have not moved the board yet: the end values of those \<open>k\<close> tweens
  are on the board and the animation is still pending.
\<close>

definition play_first :: "nat \<Rightarrow> nat \<Rightarrow> state \<Rightarrow> state" where
  "play_first k i s =
     (if i < length (gsap s)
      then s\<lparr>boardContainer :=
               map_option (\<lambda>c. foldl finish_tween c (take k (anim_tweens (gsap s ! i))))
                 (boardContainer s)\<rparr>
      else s)"

text \<open>A trigger of the rotation followed by the completion of the animation it started.\<close>

definition rotate_and_complete :: "state \<Rightarrow> state" where
  "rotate_and_complete s = complete (length (gsap s)) (snd (rotateBoard s))"

text \<open>A call of \<open>resetRotation\<close> followed by the completion of the tween it started.\<close>

definition reset_and_complete :: "state \<Rightarrow> state" where
  "reset_and_complete s = complete (length (gsap s)) (resetRotation s)"

text \<open>The animation most recently handed to GSAP once \<open>rotateBoard\<close> has returned.\<close>

definition started :: "state \<Rightarrow> animation" where
  "started s = last (gsap (snd (rotateBoard s)))"

text \<open>
  The end values an animation gives to one property of one target, in the order of its
  tweens.
\<close>

definition targets_of :: "tween_target \<Rightarrow> property \<Rightarrow> animation \<Rightarrow> real list" where
  "targets_of tg p a =
     concat (map (\<lambda>tw. if tw_target tw = tg
                        then map snd (filter (\<lambda>pv. fst pv = p) (tw_vars tw)) else [])
                 (anim_tweens a))"

subsection \<open>Example states\<close>

text \<open>
  The component after a successful mount (every call of \<open>Math.random()\<close> returning one
  half), and the same once the parent has switched the feature on.
\<close>

definition mounted_state :: state where
  "mounted_state = onMount None (\<lambda>i. 1 / 2) initial_state"

definition activated_state :: state where
  "activated_state = mounted_state\<lparr>activated := True\<rparr>"

text \<open>
  A first click on Spin, half a second into its animation. The timeline's tweens run over
  the intervals 0 to 0.4 s (zoom out), 0 to 0.4 s (move up and overshoot), 0.35 to 0.5 s
  (bounce back), 0.5 to 0.7 s (settle), 0.65 to 1.15 s (zoom in) and 0.65 to 1.15 s (fall),
  so at 0.5 s the first three have ended and the others have not moved the board. Until
  the fall begins at 0.65 s the scale stays at 0.90 and the board 80 above its rest
  position; only the rotation changes in that window.
\<close>

definition mid_spin_state :: state where
  "mid_spin_state = play_first 3 0 (snd (rotateBoard activated_state))"

text \<open>
  A second click on Spin in that state, then both timelines running to completion, the
  older one first.
\<close>

definition second_spin_done :: state where
  "second_spin_done = complete 0 (complete 0 (snd (rotateBoard mid_spin_state)))"

section \<open>Properties\<close>

declare generateSymbolGrid_loop.simps [simp del]

subsection \<open>The symbol grid\<close>

lemma loop_length:
  "length (generateSymbolGrid_loop random i grid) = length grid + (GRID_SIZE * GRID_SIZE - i)"
proof (induction random i grid rule: generateSymbolGrid_loop.induct)
  case (1 random i grid)
  show ?case
    by (subst generateSymbolGrid_loop.simps) (use 1 in auto)
qed

lemma random_index:
  assumes "0 \<le> r" "r < 1"
  shows "js_index SYMBOLS \<lfloor>r * real (length SYMBOLS)\<rfloor> \<in> Some ` set SYMBOLS"
proof -
  have len: "length SYMBOLS = 26" by (simp add: SYMBOLS_def)
  have "0 \<le> r * 26" using assms by simp
  then have lo: "0 \<le> \<lfloor>r * 26\<rfloor>" by simp
  have "r * 26 < 26" using assms by simp
  then have hi: "\<lfloor>r * 26\<rfloor> < 26" by (simp add: floor_less_iff)
  from lo hi have "nat \<lfloor>r * 26\<rfloor> < length SYMBOLS" using len by linarith
  then have "SYMBOLS ! nat \<lfloor>r * 26\<rfloor> \<in> set SYMBOLS" by (rule nth_mem)
  with lo hi show ?thesis by (simp add: js_index_def len)
qed

lemma loop_letters:
  assumes "\<forall>j. 0 \<le> random j \<and> random j < 1" "set grid \<subseteq> Some ` set SYMBOLS"
  shows "set (generateSymbolGrid_loop random i grid) \<subseteq> Some ` set SYMBOLS"
  using assms
proof (induction random i grid rule: generateSymbolGrid_loop.induct)
  case (1 random i grid)
  show ?case
  proof (cases "i < GRID_SIZE * GRID_SIZE")
    case True
    have "js_index SYMBOLS \<lfloor>random i * real (length SYMBOLS)\<rfloor> \<in> Some ` set SYMBOLS"
      using "1.prems"(1) by (intro random_index) auto
    with "1.prems" have "set (grid @ [js_index SYMBOLS \<lfloor>random i * real (length SYMBOLS)\<rfloor>])
        \<subseteq> Some ` set SYMBOLS" by simp
    from "1.IH"[OF True "1.prems"(1) this] True show ?thesis
      by (subst generateSymbolGrid_loop.simps) simp
  next
    case False
    with "1.prems" show ?thesis by (subst generateSymbolGrid_loop.simps) simp
  qed
qed

lemma set_SYMBOLS: "set SYMBOLS = (\<lambda>ch. [ch]) ` set ''ABCDEFGHIJKLMNOPQRSTUVWXYZ''"
  unfolding SYMBOLS_def by (rule set_map)

text \<open>
  C10. \<open>generateSymbolGrid\<close> returns 25 symbols, each a one-letter string from A to Z,
  whatever numbers of the half-open unit interval \<open>Math.random()\<close> returns.
\<close>

theorem generateSymbolGrid_25_letters:
  assumes "\<forall>j. 0 \<le> random j \<and> random j < 1"
  shows "length (generateSymbolGrid random) = 25 \<and>
         (\<forall>e \<in> set (generateSymbolGrid random).
            \<exists>ch \<in> set ''ABCDEFGHIJKLMNOPQRSTUVWXYZ''. e = Some [ch])"
proof -
  have "length (generateSymbolGrid random) = 25"
    by (simp add: generateSymbolGrid_def loop_length GRID_SIZE_def)
  moreover have "set (generateSymbolGrid random) \<subseteq> Some ` set SYMBOLS"
    unfolding generateSymbolGrid_def using assms by (intro loop_letters) auto
  then have "\<forall>e \<in> set (generateSymbolGrid random).
            \<exists>ch \<in> set ''ABCDEFGHIJKLMNOPQRSTUVWXYZ''. e = Some [ch]"
    unfolding set_SYMBOLS by blast
  ultimately show ?thesis by blast
qed

theorem generateSymbolGrid_25_letters_witness:
  "(0::real) \<le> 1 / 2 \<and> (1::real) / 2 < 1 \<and>
   length (generateSymbolGrid (\<lambda>i. 1 / 2)) = 25 \<and>
   (\<exists>ch \<in> set ''ABCDEFGHIJKLMNOPQRSTUVWXYZ''.
      generateSymbolGrid (\<lambda>i. 1 / 2) ! 0 = Some [ch])"
proof -
  have h: "\<forall>j::nat. (0::real) \<le> 1 / 2 \<and> (1::real) / 2 < 1" by simp
  note t = generateSymbolGrid_25_letters [of "\<lambda>i. 1 / 2", OF h]
  from t have len: "length (generateSymbolGrid (\<lambda>i. 1 / 2)) = 25" by blast
  then have "generateSymbolGrid (\<lambda>i. 1 / 2) ! 0 \<in> set (generateSymbolGrid (\<lambda>i. 1 / 2))"
    by (intro nth_mem) simp
  with t have "\<exists>ch \<in> set ''ABCDEFGHIJKLMNOPQRSTUVWXYZ''.
      generateSymbolGrid (\<lambda>i. 1 / 2) ! 0 = Some [ch]" by blast
  with len show ?thesis by simp
qed

text \<open>The grid of the example states, computed: index 13 is the letter N.\<close>

lemma generateSymbolGrid_half: "generateSymbolGrid (\<lambda>i. 1 / 2) = replicate 25 (Some ''N'')"
proof -
  have "generateSymbolGrid (\<lambda>i. 1 / 2) =
    [Some ''N'', Some ''N'', Some ''N'', Some ''N'', Some ''N'',
     Some ''N'', Some ''N'', Some ''N'', Some ''N'', Some ''N'',
     Some ''N'', Some ''N'', Some ''N'', Some ''N'', Some ''N'',
     Some ''N'', Some ''N'', Some ''N'', Some ''N'', Some ''N'',
     Some ''N'', Some ''N'', Some ''N'', Some ''N'', Some ''N'']"
    by (simp add: generateSymbolGrid_def generateSymbolGrid_loop.simps GRID_SIZE_def
        SYMBOLS_def js_index_def)
  also have "\<dots> = replicate 25 (Some ''N'')"
    by (simp add: numeral_eq_Suc)
  finally show ?thesis .
qed

subsection \<open>The example states, computed\<close>

lemmas config_defs = UPWARD_MOVEMENT_def ROTATION_OVERSHOOT_def ROTATION_BOUNCE_BACK_def
  FINAL_ROTATION_def ZOOM_OUT_SCALE_def ZOOM_IN_SCALE_def

lemma mounted_state_eq:
  "mounted_state =
     \<lparr>activated = False, rotation = Some 0, canvasContainer = True,
      boardContainer = Some \<lparr>c_x = 240, c_y = 240, c_rotation = 0, c_scale_x = 1,
                              c_scale_y = 1, c_pivot_x = 190, c_pivot_y = 190\<rparr>,
      pixiApp = True, currentRotation = 0, originalBoardY = 240,
      symbolGrid = replicate 25 (Some ''N''), console = [], gsap = []\<rparr>"
  by (simp add: mounted_state_def onMount_def initial_state_def initializeBoardContainer_def
      new_Container_def BOARD_WIDTH_def BOARD_HEIGHT_def CANVAS_WIDTH_def CANVAS_HEIGHT_def
      GRID_SIZE_def SYMBOL_SIZE_def SYMBOL_SPACING_def FRAME_PADDING_def CANVAS_PADDING_def
      generateSymbolGrid_half)

lemma activated_state_eq:
  "activated_state =
     \<lparr>activated = True, rotation = Some 0, canvasContainer = True,
      boardContainer = Some \<lparr>c_x = 240, c_y = 240, c_rotation = 0, c_scale_x = 1,
                              c_scale_y = 1, c_pivot_x = 190, c_pivot_y = 190\<rparr>,
      pixiApp = True, currentRotation = 0, originalBoardY = 240,
      symbolGrid = replicate 25 (Some ''N''), console = [], gsap = []\<rparr>"
  by (simp add: activated_state_def mounted_state_eq)

subsection \<open>A rotation that runs to completion\<close>

text \<open>
  The whole effect of a trigger and the completion of its timeline: the rotation, displayed
  and tracked, advances by 90 degrees from the tracked rotation and the scale is 1; the
  handler writes back the \<open>y\<close> it captured, which is the board's own.
\<close>

lemma rotate_and_complete_eq:
  assumes "boardContainer s = Some c" "activated s"
  shows "rotate_and_complete s =
           s\<lparr>boardContainer := Some (c\<lparr>c_rotation := (currentRotation s + 90) * (pi / 180),
                                       c_scale_x := 1, c_scale_y := 1\<rparr>),
             currentRotation := currentRotation s + 90\<rparr>"
  using assms
  by (simp add: rotate_and_complete_def rotateBoard_def rotateBoard_calling_def
      createRotationAnimation_def complete_def Let_def finish_tween_def config_defs nth_append)

lemma started_onComplete:
  assumes "boardContainer s = Some c" "activated s"
  shows "anim_onComplete (started s) = LockFinalValues (currentRotation s) (c_y c)"
  using assms
  by (simp add: started_def rotateBoard_def rotateBoard_calling_def
      createRotationAnimation_def Let_def)

text \<open>
  C1, as stated, fails: the final rotation is 90 degrees only for a trigger from the
  neutral position. A second trigger, from tracked rotation 90, ends at 180 degrees
  (\<open>pi\<close> radians on the board).
\<close>

theorem second_rotation_not_at_90:
  "currentRotation (rotate_and_complete (rotate_and_complete activated_state)) = 180 \<and>
   map_option c_rotation (boardContainer (rotate_and_complete (rotate_and_complete activated_state)))
     = Some pi \<and>
   currentRotation (rotate_and_complete (rotate_and_complete activated_state)) \<noteq> 90 \<and>
   map_option c_rotation (boardContainer (rotate_and_complete (rotate_and_complete activated_state)))
     \<noteq> Some (90 * (pi / 180))"
  by (simp add: activated_state_def mounted_state_eq rotate_and_complete_eq)

text \<open>
  C1, amended. For every trigger that starts the animation from tracked rotation \<open>r\<close> and
  runs to completion, the final rotation is \<open>r + 90\<close> degrees, tracked and displayed; and
  the completion handler of the started timeline writes exactly that value whatever state
  the tweens left the board in, which is the drift correction.
\<close>

theorem rotation_ends_90_past_start:
  assumes "boardContainer s \<noteq> None" "activated s"
  shows "currentRotation (rotate_and_complete s) = currentRotation s + 90 \<and>
         map_option c_rotation (boardContainer (rotate_and_complete s))
           = Some ((currentRotation s + 90) * (pi / 180)) \<and>
         (\<forall>t. boardContainer t \<noteq> None \<longrightarrow>
            currentRotation (run_onComplete (anim_onComplete (started s)) t)
              = currentRotation s + 90 \<and>
            map_option c_rotation (boardContainer (run_onComplete (anim_onComplete (started s)) t))
              = Some ((currentRotation s + 90) * (pi / 180)))"
proof -
  from assms(1) obtain c where c: "boardContainer s = Some c" by auto
  have "currentRotation (rotate_and_complete s) = currentRotation s + 90"
    by (simp add: rotate_and_complete_eq [OF c assms(2)])
  moreover have "map_option c_rotation (boardContainer (rotate_and_complete s))
           = Some ((currentRotation s + 90) * (pi / 180))"
    by (simp add: rotate_and_complete_eq [OF c assms(2)])
  moreover have "\<forall>t. boardContainer t \<noteq> None \<longrightarrow>
            currentRotation (run_onComplete (anim_onComplete (started s)) t)
              = currentRotation s + 90 \<and>
            map_option c_rotation (boardContainer (run_onComplete (anim_onComplete (started s)) t))
              = Some ((currentRotation s + 90) * (pi / 180))"
    by (auto simp: started_onComplete [OF c assms(2)] FINAL_ROTATION_def)
  ultimately show ?thesis by blast
qed

theorem rotation_ends_90_past_start_witness:
  "boardContainer activated_state \<noteq> None \<and> activated activated_state \<and>
   currentRotation activated_state = 0 \<and>
   currentRotation (rotate_and_complete activated_state) = 90 \<and>
   map_option c_rotation (boardContainer (rotate_and_complete activated_state)) = Some (pi / 2)"
  using rotation_ends_90_past_start [of activated_state]
  by (simp add: activated_state_def mounted_state_eq)

subsection \<open>The timeline that rotateBoard builds\<close>

text \<open>
  C2. A call of \<open>rotateBoard\<close> that starts an animation from tracked rotation \<open>r\<close> hands
  GSAP one timeline whose rotation targets are, in order, \<open>r + 95\<close>, \<open>r + 87\<close> and
  \<open>r + 90\<close> degrees (written in radians), and whose scale targets are 0.90 first and 1.0
  last, on both axes.
\<close>

theorem rotateBoard_timeline_targets:
  assumes "boardContainer s \<noteq> None" "activated s"
  shows "gsap (snd (rotateBoard s)) = gsap s @ [started s] \<and>
         targets_of BoardContainer PropRotation (started s)
           = map (\<lambda>d. d * (pi / 180))
               [currentRotation s + 95, currentRotation s + 87, currentRotation s + 90] \<and>
         targets_of BoardContainerScale PropX (started s) = [90 / 100, 1] \<and>
         targets_of BoardContainerScale PropY (started s) = [90 / 100, 1]"
proof -
  from assms(1) obtain c where c: "boardContainer s = Some c" by auto
  have g: "gsap (snd (rotateBoard s)) = gsap s @ [started s]"
    using c assms(2)
    by (simp add: started_def rotateBoard_def rotateBoard_calling_def
        createRotationAnimation_def Let_def)
  have r: "targets_of BoardContainer PropRotation (started s)
           = map (\<lambda>d. d * (pi / 180))
               [currentRotation s + 95, currentRotation s + 87, currentRotation s + 90]"
    using c assms(2)
    by (simp add: started_def rotateBoard_def rotateBoard_calling_def
        createRotationAnimation_def Let_def targets_of_def config_defs)
  have x: "targets_of BoardContainerScale PropX (started s) = [90 / 100, 1]"
    using c assms(2)
    by (simp add: started_def rotateBoard_def rotateBoard_calling_def
        createRotationAnimation_def Let_def targets_of_def config_defs)
  have y: "targets_of BoardContainerScale PropY (started s) = [90 / 100, 1]"
    using c assms(2)
    by (simp add: started_def rotateBoard_def rotateBoard_calling_def
        createRotationAnimation_def Let_def targets_of_def config_defs)
  from g r x y show ?thesis by blast
qed

theorem rotateBoard_timeline_targets_witness:
  "boardContainer activated_state \<noteq> None \<and> activated activated_state \<and>
   gsap (snd (rotateBoard activated_state)) = [started activated_state] \<and>
   targets_of BoardContainer PropRotation (started activated_state)
     = [95 * (pi / 180), 87 * (pi / 180), 90 * (pi / 180)] \<and>
   targets_of BoardContainerScale PropX (started activated_state) = [9 / 10, 1] \<and>
   targets_of BoardContainerScale PropY (started activated_state) = [9 / 10, 1]"
  using rotateBoard_timeline_targets [of activated_state]
  by (simp add: activated_state_eq)

subsection \<open>When rotateBoard animates\<close>

text \<open>
  C3, as stated, fails: on the mounted board, with the container initialised but the
  feature not activated, \<open>rotateBoard\<close> returns without starting anything.
\<close>

theorem rotateBoard_idle_without_activation:
  "boardContainer mounted_state \<noteq> None \<and>
   rotateBoard mounted_state = (Inr (), mounted_state) \<and>
   gsap (snd (rotateBoard mounted_state)) = []"
  by (simp add: mounted_state_eq rotateBoard_def rotateBoard_calling_def)

text \<open>
  C3, amended. \<open>rotateBoard\<close> starts the rotation animation in every state where the board
  container is initialised and the feature is activated, and is a no-op in every other
  state: an absent container and a feature not activated are the two conditions under
  which it does not animate.
\<close>

theorem rotateBoard_animates_iff:
  "(boardContainer s \<noteq> None \<and> activated s \<longrightarrow>
      gsap (snd (rotateBoard s)) = gsap s @ [started s] \<and>
      fst (createRotationAnimation s) = Inr (started s)) \<and>
   (boardContainer s = None \<or> \<not> activated s \<longrightarrow> rotateBoard s = (Inr (), s))"
  by (auto simp: started_def rotateBoard_def rotateBoard_calling_def
      createRotationAnimation_def Let_def)

theorem rotateBoard_animates_iff_witness:
  "boardContainer activated_state \<noteq> None \<and> activated activated_state \<and>
   gsap (snd (rotateBoard activated_state)) = [started activated_state] \<and>
   fst (createRotationAnimation activated_state) = Inr (started activated_state) \<and>
   \<not> activated mounted_state \<and> rotateBoard mounted_state = (Inr (), mounted_state)"
  using rotateBoard_animates_iff [of activated_state] rotateBoard_animates_iff [of mounted_state]
  by (simp add: activated_state_eq mounted_state_eq)

text \<open>
  C4. With the board container absent, \<open>rotateBoard\<close> and \<open>resetRotation\<close> return at once
  and leave the whole component state as it was.
\<close>

theorem absent_board_no_op:
  assumes "boardContainer s = None"
  shows "rotateBoard s = (Inr (), s) \<and> resetRotation s = s"
  using assms by (simp add: rotateBoard_def rotateBoard_calling_def resetRotation_def)

theorem absent_board_no_op_witness:
  "boardContainer initial_state = None \<and>
   rotateBoard initial_state = (Inr (), initial_state) \<and>
   resetRotation initial_state = initial_state"
  using absent_board_no_op [of initial_state] by (simp add: initial_state_def)

text \<open>
  C5. \<open>rotateBoard\<close> always returns normally; whatever exception the call in its \<open>try\<close>
  block raises is caught and logged with \<open>console.error\<close>, and the caller sees a normal
  return.
\<close>

theorem rotateBoard_catches:
  "fst (rotateBoard s) = Inr () \<and>
   fst (rotateBoard_calling create s) = Inr () \<and>
   (boardContainer s \<noteq> None \<and> activated s \<and> create s = (Inl e, s1) \<longrightarrow>
      rotateBoard_calling create s =
        (Inr (), s1\<lparr>console := console s1 @ [(''Failed to animate board rotation:'', e)]\<rparr>))"
  by (auto simp: rotateBoard_def rotateBoard_calling_def split: prod.splits sum.splits)

theorem rotateBoard_catches_witness:
  "boardContainer activated_state \<noteq> None \<and> activated activated_state \<and>
   rotateBoard_calling (\<lambda>s. (Inl (Error ''gsap failed''), s)) activated_state =
     (Inr (), activated_state\<lparr>console :=
        [(''Failed to animate board rotation:'', Error ''gsap failed'')]\<rparr>)"
  using rotateBoard_catches [of activated_state "\<lambda>s. (Inl (Error ''gsap failed''), s)"
      "Error ''gsap failed''" activated_state]
  by (simp add: activated_state_eq)

subsection \<open>The rotation prop and resetRotation\<close>

text \<open>
  C6, as stated, fails: after a completed rotation the prop still holds 0 while the board
  stands at 90 degrees, and assigning 0 to the prop changes nothing, since the value of
  the prop does not change and the effect does not run.
\<close>

theorem rotation_prop_same_value_ignored:
  "rotation (rotate_and_complete activated_state) = Some 0 \<and>
   boardContainer (rotate_and_complete activated_state) \<noteq> None \<and>
   map_option c_rotation
     (boardContainer (set_rotation 0 (rotate_and_complete activated_state))) = Some (pi / 2) \<and>
   currentRotation (set_rotation 0 (rotate_and_complete activated_state)) = 90 \<and>
   map_option c_rotation
     (boardContainer (set_rotation 0 (rotate_and_complete activated_state)))
     \<noteq> Some (0 * pi / 180) \<and>
   currentRotation (set_rotation 0 (rotate_and_complete activated_state)) \<noteq> 0"
  by (simp add: activated_state_eq rotate_and_complete_eq set_rotation_def)

text \<open>
  C6, amended. With the board container present, setting the \<open>rotation\<close> prop to a value
  \<open>r\<close> other than the one it holds sets the displayed rotation to \<open>r * pi / 180\<close> radians
  and the tracked rotation to \<open>r\<close> degrees; assigning the value the prop already holds
  leaves the component as it is.
\<close>

theorem rotation_prop_sync:
  "(boardContainer s \<noteq> None \<and> rotation s \<noteq> Some r \<longrightarrow>
      map_option c_rotation (boardContainer (set_rotation r s)) = Some (r * pi / 180) \<and>
      currentRotation (set_rotation r s) = r) \<and>
   (rotation s = Some r \<longrightarrow> set_rotation r s = s)"
  by (auto simp: set_rotation_def rotation_effect_def)

theorem rotation_prop_sync_witness:
  "boardContainer mounted_state \<noteq> None \<and> rotation mounted_state \<noteq> Some 45 \<and>
   map_option c_rotation (boardContainer (set_rotation 45 mounted_state)) = Some (pi / 4) \<and>
   currentRotation (set_rotation 45 mounted_state) = 45 \<and>
   rotation mounted_state = Some 0 \<and> set_rotation 0 mounted_state = mounted_state"
  using rotation_prop_sync [of mounted_state 45] rotation_prop_sync [of mounted_state 0]
  by (simp add: mounted_state_eq)

text \<open>
  C7. From any starting rotation, once the tween of \<open>resetRotation\<close> has run to completion
  on a present board, the displayed rotation is 0 and the tracked rotation is 0.
\<close>

theorem reset_ends_neutral:
  assumes "boardContainer s \<noteq> None"
  shows "map_option c_rotation (boardContainer (reset_and_complete s)) = Some 0 \<and>
         currentRotation (reset_and_complete s) = 0"
  using assms
  by (auto simp: reset_and_complete_def resetRotation_def complete_def Let_def
      finish_tween_def nth_append)

theorem reset_ends_neutral_witness:
  "boardContainer (rotate_and_complete activated_state) \<noteq> None \<and>
   currentRotation (rotate_and_complete activated_state) = 90 \<and>
   map_option c_rotation (boardContainer (reset_and_complete (rotate_and_complete activated_state)))
     = Some 0 \<and>
   currentRotation (reset_and_complete (rotate_and_complete activated_state)) = 0"
  using reset_ends_neutral [of "rotate_and_complete activated_state"]
  by (simp add: activated_state_eq rotate_and_complete_eq)

subsection \<open>Scale and position after a completed rotation\<close>

text \<open>
  C8. After every trigger that runs to completion the scale is 1.0 on both axes, and the
  completion handler of the started timeline writes that scale itself, whatever the tweens
  left behind.
\<close>

theorem rotation_ends_at_scale_1:
  assumes "boardContainer s \<noteq> None" "activated s"
  shows "map_option c_scale_x (boardContainer (rotate_and_complete s)) = Some 1 \<and>
         map_option c_scale_y (boardContainer (rotate_and_complete s)) = Some 1 \<and>
         (\<forall>t. boardContainer t \<noteq> None \<longrightarrow>
            map_option c_scale_x (boardContainer (run_onComplete (anim_onComplete (started s)) t))
              = Some 1 \<and>
            map_option c_scale_y (boardContainer (run_onComplete (anim_onComplete (started s)) t))
              = Some 1)"
proof -
  from assms(1) obtain c where c: "boardContainer s = Some c" by auto
  have "map_option c_scale_x (boardContainer (rotate_and_complete s)) = Some 1"
    by (simp add: rotate_and_complete_eq [OF c assms(2)])
  moreover have "map_option c_scale_y (boardContainer (rotate_and_complete s)) = Some 1"
    by (simp add: rotate_and_complete_eq [OF c assms(2)])
  moreover have "\<forall>t. boardContainer t \<noteq> None \<longrightarrow>
            map_option c_scale_x (boardContainer (run_onComplete (anim_onComplete (started s)) t))
              = Some 1 \<and>
            map_option c_scale_y (boardContainer (run_onComplete (anim_onComplete (started s)) t))
              = Some 1"
    by (auto simp: started_onComplete [OF c assms(2)] ZOOM_IN_SCALE_def)
  ultimately show ?thesis by blast
qed

theorem rotation_ends_at_scale_1_witness:
  "boardContainer activated_state \<noteq> None \<and> activated activated_state \<and>
   map_option c_scale_x (boardContainer (rotate_and_complete activated_state)) = Some 1 \<and>
   map_option c_scale_y (boardContainer (rotate_and_complete activated_state)) = Some 1"
  using rotation_ends_at_scale_1 [of activated_state]
  by (simp add: activated_state_eq)

text \<open>The two example states of the overlapping clicks, computed.\<close>

lemma mid_spin_state_eq:
  "mid_spin_state =
     activated_state
       \<lparr>boardContainer :=
          Some \<lparr>c_x = 240, c_y = 160, c_rotation = 87 * (pi / 180), c_scale_x = 9 / 10,
                c_scale_y = 9 / 10, c_pivot_x = 190, c_pivot_y = 190\<rparr>,
        gsap := [started activated_state]\<rparr>"
  by (simp add: mid_spin_state_def play_first_def started_def activated_state_eq
      rotateBoard_def rotateBoard_calling_def createRotationAnimation_def Let_def
      finish_tween_def config_defs)

lemma second_spin_done_eq:
  "second_spin_done =
     activated_state
       \<lparr>boardContainer :=
          Some \<lparr>c_x = 240, c_y = 160, c_rotation = pi / 2, c_scale_x = 1,
                c_scale_y = 1, c_pivot_x = 190, c_pivot_y = 190\<rparr>,
        currentRotation := 90\<rparr>"
  by (simp add: second_spin_done_def mid_spin_state_def play_first_def complete_def
      activated_state_eq rotateBoard_def rotateBoard_calling_def createRotationAnimation_def
      Let_def finish_tween_def config_defs)

text \<open>
  C9, as stated, fails in its last part. A second click on Spin half a second into a
  running rotation meets the board at scale 0.90; when its animation has run to completion
  the scale is 1.0, so the rotation is not the only field that differs from the state
  before that animation.
\<close>

theorem second_spin_changes_scale:
  "boardContainer mid_spin_state \<noteq> None \<and> activated mid_spin_state \<and>
   map_option c_scale_x (boardContainer mid_spin_state) = Some (9 / 10) \<and>
   map_option c_scale_y (boardContainer mid_spin_state) = Some (9 / 10) \<and>
   map_option c_scale_x (boardContainer second_spin_done) = Some 1 \<and>
   map_option c_scale_y (boardContainer second_spin_done) = Some 1 \<and>
   map_option c_scale_x (boardContainer second_spin_done)
     \<noteq> map_option c_scale_x (boardContainer mid_spin_state)"
  by (simp add: mid_spin_state_eq second_spin_done_eq activated_state_eq)

text \<open>
  C9, amended. For every trigger issued while the board is at rest (no animation pending,
  scale 1.0 on both axes) that runs to completion, the board's \<open>y\<close> is the value it had
  when the animation started: the timeline moves it up by 80 and back, and the completion
  handler writes the captured value; and only the rotation, displayed and tracked, differs
  from the state before the animation. A trigger issued while an earlier animation is
  still running is left out.
\<close>

theorem rotation_from_rest_restores_y:
  assumes "boardContainer s = Some c" "activated s" "gsap s = []"
    "c_scale_x c = 1" "c_scale_y c = 1"
  shows "map_option c_y (boardContainer (rotate_and_complete s)) = Some (c_y c) \<and>
         targets_of BoardContainer PropY (started s)
           = [c_y c - 80, c_y c - 80, c_y c] \<and>
         (\<forall>t. boardContainer t \<noteq> None \<longrightarrow>
            map_option c_y (boardContainer (run_onComplete (anim_onComplete (started s)) t))
              = Some (c_y c)) \<and>
         rotate_and_complete s =
           s\<lparr>boardContainer := Some (c\<lparr>c_rotation := (currentRotation s + 90) * (pi / 180)\<rparr>),
             currentRotation := currentRotation s + 90\<rparr>"
proof -
  note eq = rotate_and_complete_eq [OF assms(1,2)]
  have "map_option c_y (boardContainer (rotate_and_complete s)) = Some (c_y c)"
    by (simp add: eq)
  moreover have "targets_of BoardContainer PropY (started s) = [c_y c - 80, c_y c - 80, c_y c]"
    using assms(1,2)
    by (simp add: started_def rotateBoard_def rotateBoard_calling_def
        createRotationAnimation_def Let_def targets_of_def config_defs)
  moreover have "\<forall>t. boardContainer t \<noteq> None \<longrightarrow>
            map_option c_y (boardContainer (run_onComplete (anim_onComplete (started s)) t))
              = Some (c_y c)"
    by (auto simp: started_onComplete [OF assms(1,2)])
  moreover have "rotate_and_complete s =
           s\<lparr>boardContainer := Some (c\<lparr>c_rotation := (currentRotation s + 90) * (pi / 180)\<rparr>),
             currentRotation := currentRotation s + 90\<rparr>"
    using assms(4,5) by (simp add: eq)
  ultimately show ?thesis by blast
qed

theorem rotation_from_rest_restores_y_witness:
  "boardContainer activated_state =
     Some \<lparr>c_x = 240, c_y = 240, c_rotation = 0, c_scale_x = 1, c_scale_y = 1,
           c_pivot_x = 190, c_pivot_y = 190\<rparr> \<and>
   activated activated_state \<and> gsap activated_state = [] \<and>
   targets_of BoardContainer PropY (started activated_state) = [160, 160, 240] \<and>
   rotate_and_complete activated_state =
     activated_state\<lparr>boardContainer :=
         Some \<lparr>c_x = 240, c_y = 240, c_rotation = pi / 2, c_scale_x = 1, c_scale_y = 1,
               c_pivot_x = 190, c_pivot_y = 190\<rparr>,
       currentRotation := 90\<rparr>"
  using rotation_from_rest_restores_y [of activated_state
      "\<lparr>c_x = 240, c_y = 240, c_rotation = 0, c_scale_x = 1, c_scale_y = 1,
        c_pivot_x = 190, c_pivot_y = 190\<rparr>"]
  by (simp add: activated_state_eq)

end
